theory Spec2Isabelle
  imports Main "HOL-Library.Word"
begin

unbundle bit_operations_syntax

section \<open>JavaScript values\<close>

text \<open>
  A JavaScript string is modelled as a \<^typ>\<open>string\<close> whose characters are the code points
  U+0000 to U+00FF. A property that is \<open>undefined\<close> (or an omitted argument) is \<open>None\<close>
  of an option type.

  The values \<open>response.json()\<close> can produce. A number is carried as an integer;
  an object is the list of its own properties in insertion order.
\<close>

datatype json =
    JNull
  | JBool bool
  | JNum int
  | JStr string
  | JArr "json list"
  | JObj "(string \<times> json) list"

text \<open>
  The exceptions. \<open>Error m\<close> is an exception of the platform with message \<open>m\<close>
  (an \<open>Error\<close>, a \<open>TypeError\<close>, a \<open>SyntaxError\<close>): the code reads nothing of it but
  its message and that it is no \<open>DomainFlowError\<close>. \<open>DomainFlowError\<close> is the class
  of lines 297 to 304, with its message, \<open>statusCode\<close> and \<open>response\<close>, \<open>None\<close> for
  \<open>null\<close>.
\<close>

datatype exn =
    Error string
  | DomainFlowError string "nat option" "json option"

fun message :: "exn \<Rightarrow> string" where
  "message (Error m) = m"
| "message (DomainFlowError m _ _) = m"

fun statusCode :: "exn \<Rightarrow> nat option" where
  "statusCode (DomainFlowError _ s _) = s"
| "statusCode _ = None"

fun response :: "exn \<Rightarrow> json option" where
  "response (DomainFlowError _ _ r) = r"
| "response _ = None"

text \<open>\<open>error instanceof DomainFlowError\<close>\<close>

fun instanceof_DomainFlowError :: "exn \<Rightarrow> bool" where
  "instanceof_DomainFlowError (DomainFlowError _ _ _) = True"
| "instanceof_DomainFlowError _ = False"

text \<open>
  Truthiness, as \<open>if (v)\<close>, \<open>!v\<close> and \<open>v || d\<close> test it. Of an optional string,
  \<open>undefined\<close> (\<open>None\<close>) and the empty string are falsy.
\<close>

fun truthy :: "json \<Rightarrow> bool" where
  "truthy JNull = False"
| "truthy (JBool b) = b"
| "truthy (JNum n) = (n \<noteq> 0)"
| "truthy (JStr s) = (s \<noteq> [])"
| "truthy (JArr _) = True"
| "truthy (JObj _) = True"

text \<open>
  Reading a property, \<open>v.name\<close>: a \<open>TypeError\<close> on \<open>null\<close>, \<open>undefined\<close> (\<open>None\<close>)
  where the value has no such property. Only an object decoded from JSON has properties
  with the names used here.
\<close>

fun get_property :: "json \<Rightarrow> string \<Rightarrow> exn + json option" where
  "get_property JNull name =
     Inl (Error (''Cannot read properties of null (reading '' @ [CHR 0x27] @ name @ [CHR 0x27] @ '')''))"
| "get_property (JObj props) name = Inr (map_of props name)"
| "get_property _ name = Inr None"

text \<open>Decimal digits of a number, as \<open>String(n)\<close> writes an integer.\<close>

fun digits :: "nat \<Rightarrow> string" where
  "digits n =
     (if n < 10 then [char_of (48 + n)] else digits (n div 10) @ [char_of (48 + n mod 10)])"

definition show_int :: "int \<Rightarrow> string" where
  "show_int i = (if i < 0 then ''-'' @ digits (nat (- i)) else digits (nat i))"

fun join :: "string \<Rightarrow> string list \<Rightarrow> string" where
  "join sep [] = []"
| "join sep [x] = x"
| "join sep (x # y # ys) = x @ sep @ join sep (y # ys)"

text \<open>Collects the results of a list of computations, stopping at the first exception.\<close>

fun sequence :: "(exn + 'a) list \<Rightarrow> exn + 'a list" where
  "sequence [] = Inr []"
| "sequence (Inl e # _) = Inl e"
| "sequence (Inr x # rs) = (case sequence rs of Inl e \<Rightarrow> Inl e | Inr xs \<Rightarrow> Inr (x # xs))"

text \<open>
  \<open>ToString\<close>, which the \<open>Error\<close> constructor applies to its message. An array is
  joined with commas, \<open>null\<close> elements as the empty string. A decoded object has no callable
  \<open>toString\<close> of its own: with such a property the conversion throws, without it
  \<open>Object.prototype.toString\<close> answers.
\<close>

fun ToString :: "json \<Rightarrow> exn + string" where
  "ToString JNull = Inr ''null''"
| "ToString (JBool b) = Inr (if b then ''true'' else ''false'')"
| "ToString (JNum n) = Inr (show_int n)"
| "ToString (JStr s) = Inr s"
| "ToString (JArr xs) =
     (case sequence (map (\<lambda>x. if x = JNull then Inr [] else ToString x) xs) of
        Inl e \<Rightarrow> Inl e
      | Inr parts \<Rightarrow> Inr (join '','' parts))"
| "ToString (JObj props) =
     (if map_of props ''toString'' = None then Inr ''[object Object]''
      else Inl (Error ''Cannot convert object to primitive value''))"

section \<open>The platform's \<open>crypto\<close> module: HMAC-SHA256\<close>

text \<open>
  \<open>crypto.createHmac('sha256', secret)\<close>, \<open>update(payload)\<close> and \<open>digest('hex')\<close>
  are the platform's. They are modelled after FIPS 180-4 (SHA-256) and RFC 2104 (HMAC):
  a string is hashed through its UTF-8 bytes, and the digest is written as lowercase
  hexadecimal.
\<close>

type_synonym byte = "8 word"
type_synonym u32 = "32 word"

definition utf8 :: "string \<Rightarrow> byte list" where
  "utf8 s =
     concat (map (\<lambda>c. let n = (of_char c :: nat) in
                          if n < 128 then [of_nat n]
                          else [of_nat (192 + n div 64), of_nat (128 + n mod 64)]) s)"

definition rotr :: "nat \<Rightarrow> u32 \<Rightarrow> u32" where
  "rotr n x = drop_bit n x OR push_bit (32 - n) x"

definition Ch :: "u32 \<Rightarrow> u32 \<Rightarrow> u32 \<Rightarrow> u32" where
  "Ch x y z = (x AND y) XOR (NOT x AND z)"

definition Maj :: "u32 \<Rightarrow> u32 \<Rightarrow> u32 \<Rightarrow> u32" where
  "Maj x y z = (x AND y) XOR (x AND z) XOR (y AND z)"

definition bsig0 :: "u32 \<Rightarrow> u32" where
  "bsig0 x = rotr 2 x XOR rotr 13 x XOR rotr 22 x"

definition bsig1 :: "u32 \<Rightarrow> u32" where
  "bsig1 x = rotr 6 x XOR rotr 11 x XOR rotr 25 x"

definition ssig0 :: "u32 \<Rightarrow> u32" where
  "ssig0 x = rotr 7 x XOR rotr 18 x XOR drop_bit 3 x"

definition ssig1 :: "u32 \<Rightarrow> u32" where
  "ssig1 x = rotr 17 x XOR rotr 19 x XOR drop_bit 10 x"

text \<open>The round constants and the initial hash value, in decimal.\<close>

definition sha256_K :: "u32 list" where
  "sha256_K = [
    1116352408, 1899447441, 3049323471, 3921009573, 961987163, 1508970993,
    2453635748, 2870763221, 3624381080, 310598401, 607225278, 1426881987,
    1925078388, 2162078206, 2614888103, 3248222580, 3835390401, 4022224774,
    264347078, 604807628, 770255983, 1249150122, 1555081692, 1996064986,
    2554220882, 2821834349, 2952996808, 3210313671, 3336571891, 3584528711,
    113926993, 338241895, 666307205, 773529912, 1294757372, 1396182291,
    1695183700, 1986661051, 2177026350, 2456956037, 2730485921, 2820302411,
    3259730800, 3345764771, 3516065817, 3600352804, 4094571909, 275423344,
    430227734, 506948616, 659060556, 883997877, 958139571, 1322822218,
    1537002063, 1747873779, 1955562222, 2024104815, 2227730452, 2361852424,
    2428436474, 2756734187, 3204031479, 3329325298]"

definition sha256_H0 :: "u32 list" where
  "sha256_H0 = [1779033703, 3144134277, 1013904242, 2773480762,
                1359893119, 2600822924, 528734635, 1541459225]"

text \<open>Big-endian words of a block, and the bytes of a word.\<close>

fun be_words :: "byte list \<Rightarrow> u32 list" where
  "be_words (a # b # c # d # r) =
     (push_bit 24 (ucast a) OR push_bit 16 (ucast b) OR push_bit 8 (ucast c) OR ucast d)
       # be_words r"
| "be_words _ = []"

definition word_bytes :: "u32 \<Rightarrow> byte list" where
  "word_bytes w = [ucast (drop_bit 24 w), ucast (drop_bit 16 w), ucast (drop_bit 8 w), ucast w]"

text \<open>
  The message schedule is kept as a window of the last sixteen words: its head is the
  word of the current round, and the word sixteen rounds ahead is appended.
\<close>

definition next_w :: "u32 list \<Rightarrow> u32" where
  "next_w w = ssig1 (w ! 14) + w ! 9 + ssig0 (w ! 1) + w ! 0"

fun sha_round :: "u32 \<Rightarrow> u32 \<Rightarrow> u32 list \<Rightarrow> u32 list" where
  "sha_round k w [a, b, c, d, e, f, g, h] =
     (let t1 = h + bsig1 e + Ch e f g + k + w;
          t2 = bsig0 a + Maj a b c
      in [t1 + t2, a, b, c, d + t1, e, f, g])"
| "sha_round _ _ s = s"

fun rounds :: "u32 list \<Rightarrow> u32 list \<Rightarrow> u32 list \<Rightarrow> u32 list" where
  "rounds [] w s = s"
| "rounds (k # ks) w s = rounds ks (tl w @ [next_w w]) (sha_round k (hd w) s)"

definition compress :: "byte list \<Rightarrow> u32 list \<Rightarrow> u32 list" where
  "compress block hs = map2 (+) hs (rounds sha256_K (be_words block) hs)"

definition sha_pad :: "byte list \<Rightarrow> byte list" where
  "sha_pad m =
     (let n = length m in
      m @ [128] @ replicate ((119 - n mod 64) mod 64) 0 @
      map (\<lambda>s. ucast (drop_bit s (of_nat (8 * n) :: 64 word))) [56, 48, 40, 32, 24, 16, 8, 0])"

function blocks :: "byte list \<Rightarrow> byte list list" where
  "blocks bs = (if bs = [] then [] else take 64 bs # blocks (drop 64 bs))"
  by pat_completeness auto
termination
  by (relation "measure length") auto

definition sha256 :: "byte list \<Rightarrow> byte list" where
  "sha256 m = concat (map word_bytes (fold compress (blocks (sha_pad m)) sha256_H0))"

definition hmac_sha256 :: "byte list \<Rightarrow> byte list \<Rightarrow> byte list" where
  "hmac_sha256 key m =
     (let k0 = (if length key > 64 then sha256 key else key);
          k = k0 @ replicate (64 - length k0) 0
      in sha256 (map (\<lambda>b. b XOR 92) k @ sha256 (map (\<lambda>b. b XOR 54) k @ m)))"

definition hex_digit :: "nat \<Rightarrow> char" where
  "hex_digit n = ''0123456789abcdef'' ! n"

definition hex :: "byte list \<Rightarrow> string" where
  "hex bs = concat (map (\<lambda>b. [hex_digit (unat b div 16), hex_digit (unat b mod 16)]) bs)"

section \<open>WebhooksResource.verifySignature\<close>

definition verifySignature :: "string \<Rightarrow> string \<Rightarrow> string \<Rightarrow> bool" where
  "verifySignature payload signature secret =
     (let computed = hex (hmac_sha256 (utf8 secret) (utf8 payload))
      in computed = signature)"

text \<open>\<open>String.prototype.toUpperCase\<close> on the characters a hexadecimal digest has.\<close>

definition is_lower :: "char \<Rightarrow> bool" where
  "is_lower c = (97 \<le> (of_char c :: nat) \<and> (of_char c :: nat) \<le> 122)"

definition is_alpha :: "char \<Rightarrow> bool" where
  "is_alpha c =
     ((65 \<le> (of_char c :: nat) \<and> (of_char c :: nat) \<le> 90) \<or>
      (97 \<le> (of_char c :: nat) \<and> (of_char c :: nat) \<le> 122))"

definition toUpperCase :: "string \<Rightarrow> string" where
  "toUpperCase s = map (\<lambda>c. if is_lower c then char_of ((of_char c :: nat) - 32) else c) s"

section \<open>URLSearchParams\<close>

text \<open>
  \<open>URLSearchParams.prototype.toString\<close> is the platform's \<open>application/x-www-form-urlencoded\<close>
  serialiser: of the UTF-8 bytes of a name or value, letters, digits and \<open>* - . _\<close> stay,
  a space becomes \<open>+\<close>, any other byte becomes \<open>%\<close> and two uppercase hexadecimal digits;
  the pairs are written \<open>name=value\<close> and joined with \<open>&\<close>.
\<close>

definition unreserved :: "byte \<Rightarrow> bool" where
  "unreserved b =
     (let n = unat b in
      n = 42 \<or> n = 45 \<or> n = 46 \<or> n = 95 \<or>
      (48 \<le> n \<and> n \<le> 57) \<or> (65 \<le> n \<and> n \<le> 90) \<or> (97 \<le> n \<and> n \<le> 122))"

definition HEX_digit :: "nat \<Rightarrow> char" where
  "HEX_digit n = ''0123456789ABCDEF'' ! n"

definition urlencode_byte :: "byte \<Rightarrow> string" where
  "urlencode_byte b =
     (if b = 32 then ''+''
      else if unreserved b then [char_of (unat b)]
      else [CHR ''%'', HEX_digit (unat b div 16), HEX_digit (unat b mod 16)])"

definition urlencode :: "string \<Rightarrow> string" where
  "urlencode s = concat (map urlencode_byte (utf8 s))"

type_synonym URLSearchParams = "(string \<times> string) list"

definition URLSearchParams_append ::
    "URLSearchParams \<Rightarrow> string \<Rightarrow> string \<Rightarrow> URLSearchParams" where
  "URLSearchParams_append q name v = q @ [(name, v)]"

definition URLSearchParams_toString :: "URLSearchParams \<Rightarrow> string" where
  "URLSearchParams_toString q = join ''&'' (map (\<lambda>(name, v). urlencode name @ ''='' @ urlencode v) q)"

section \<open>The client and its requests\<close>

record client =
  apiKey :: string
  baseUrl :: string
  timeout :: nat

record options =
  opt_baseUrl :: "string option"
  opt_timeout :: "nat option"

text \<open>
  What \<open>fetch\<close> is called with. The body is carried as the value that
  \<open>JSON.stringify\<close> writes.
\<close>

record request =
  url :: string
  http_method :: string
  headers :: "(string \<times> string) list"
  body :: "json option"

text \<open>
  A response: its status, and what \<open>response.json()\<close> gives, the decoded body or the
  message of the platform's exception for a body that does not decode. \<open>fetch\<close> itself
  resolves to a response or rejects with an exception of the platform, of which the
  message is kept.
\<close>

record http_response =
  status :: nat
  decoded :: "string + json"

datatype fetch_outcome = Rejected string | Resolved http_response

definition ok :: "http_response \<Rightarrow> bool" where
  "ok r = (200 \<le> status r \<and> status r \<le> 299)"

text \<open>
  The world outside the client: how the network answers a request, and the requests
  sent so far.
\<close>

record world =
  remote :: "request \<Rightarrow> fetch_outcome"
  sent :: "request list"

definition fetch :: "request \<Rightarrow> world \<Rightarrow> fetch_outcome \<times> world" where
  "fetch req w = (remote w req, w\<lparr>sent := sent w @ [req]\<rparr>)"

subsection \<open>DomainFlow.constructor\<close>

text \<open>\<open>a || b\<close> on an optional string and on an optional number.\<close>

fun or_string :: "string option \<Rightarrow> string \<Rightarrow> string" where
  "or_string None d = d"
| "or_string (Some s) d = (if s \<noteq> [] then s else d)"

fun or_number :: "nat option \<Rightarrow> nat \<Rightarrow> nat" where
  "or_number None d = d"
| "or_number (Some n) d = (if n \<noteq> 0 then n else d)"

definition DomainFlow_constructor ::
    "string option \<Rightarrow> options \<Rightarrow> world \<Rightarrow> (exn + client) \<times> world" where
  "DomainFlow_constructor apiKey' opts w =
     (case apiKey' of
        None \<Rightarrow> (Inl (Error ''DomainFlow API key is required''), w)
      | Some k \<Rightarrow>
          if k = [] then (Inl (Error ''DomainFlow API key is required''), w)
          else (Inr \<lparr>apiKey = k,
                     baseUrl = or_string (opt_baseUrl opts) ''https://api.domainflow.com'',
                     timeout = or_number (opt_timeout opts) 30000\<rparr>, w))"

subsection \<open>DomainFlow._request\<close>

text \<open>Lines 37 to 50: the url, the headers and the options of the call.\<close>

definition build_request :: "client \<Rightarrow> string \<Rightarrow> string \<Rightarrow> json \<Rightarrow> request" where
  "build_request c m path data =
     \<lparr>url = baseUrl c @ path,
      http_method = m,
      headers = [(''x-api-key'', apiKey c), (''Content-Type'', ''application/json'')],
      body = (if truthy data then Some data else None)\<rparr>"

text \<open>\<open>json.error || 'API request failed'\<close>\<close>

fun or_json :: "json option \<Rightarrow> json \<Rightarrow> json" where
  "or_json None d = d"
| "or_json (Some v) d = (if truthy v then v else d)"

text \<open>\<open>new DomainFlowError(message, statusCode, response)\<close>: \<open>super(message)\<close> converts the message.\<close>

definition new_DomainFlowError :: "json \<Rightarrow> nat option \<Rightarrow> json option \<Rightarrow> exn + exn" where
  "new_DomainFlowError msg st resp =
     (case ToString msg of
        Inl e \<Rightarrow> Inl e
      | Inr m \<Rightarrow> Inr (DomainFlowError m st resp))"

text \<open>The body of the \<open>try\<close>, after \<open>fetch\<close> has answered: \<open>Inl\<close> is what it throws.\<close>

definition try_block :: "fetch_outcome \<Rightarrow> exn + json" where
  "try_block outcome =
     (case outcome of
        Rejected m \<Rightarrow> Inl (Error m)
      | Resolved r \<Rightarrow>
          (case decoded r of
             Inl m \<Rightarrow> Inl (Error m)
           | Inr json \<Rightarrow>
               if \<not> ok r then
                 (case get_property json ''error'' of
                    Inl e \<Rightarrow> Inl e
                  | Inr err \<Rightarrow>
                      (case new_DomainFlowError (or_json err (JStr ''API request failed''))
                              (Some (status r)) (Some json) of
                         Inl e \<Rightarrow> Inl e
                       | Inr e \<Rightarrow> Inl e))
               else Inr json))"

text \<open>The \<open>catch\<close>: what is thrown in the end.\<close>

definition catch_block :: "exn \<Rightarrow> exn" where
  "catch_block error =
     (if instanceof_DomainFlowError error then error
      else DomainFlowError (message error) None None)"

definition DomainFlow_request ::
    "client \<Rightarrow> string \<Rightarrow> string \<Rightarrow> json \<Rightarrow> world \<Rightarrow> (exn + json) \<times> world" where
  "DomainFlow_request c m path data w =
     (let (outcome, w') = fetch (build_request c m path data) w
      in (case try_block outcome of
            Inl error \<Rightarrow> Inl (catch_block error)
          | Inr json \<Rightarrow> Inr json, w'))"

subsection \<open>The resources\<close>

text \<open>
  An object literal as \<open>JSON.stringify\<close> writes it: a property whose value is
  \<open>undefined\<close> is left out.
\<close>

definition object :: "(string \<times> json option) list \<Rightarrow> json" where
  "object props =
     JObj (concat (map (\<lambda>(name, v). case v of None \<Rightarrow> [] | Some x \<Rightarrow> [(name, x)]) props))"

text \<open>DomainsResource.list, lines 115 to 119: the query string.\<close>

definition list_query :: "string option \<Rightarrow> string option \<Rightarrow> string" where
  "list_query tenantId status' =
     (let queryParams = [];
          queryParams = (case tenantId of
                           None \<Rightarrow> queryParams
                         | Some t \<Rightarrow> if t \<noteq> []
                                     then URLSearchParams_append queryParams ''tenant_id'' t
                                     else queryParams);
          queryParams = (case status' of
                           None \<Rightarrow> queryParams
                         | Some s \<Rightarrow> if s \<noteq> []
                                     then URLSearchParams_append queryParams ''status'' s
                                     else queryParams)
      in if URLSearchParams_toString queryParams \<noteq> []
         then ''?'' @ URLSearchParams_toString queryParams else [])"

text \<open>
  Every operation of the four resources, with its arguments. An absent \<open>updates\<close>
  is \<open>JNull\<close>, the default of \<open>data\<close>.
\<close>

datatype operation =
    Domains_add string string "string option"
  | Domains_get string
  | Domains_list "string option" "string option"
  | Domains_verify string
  | Domains_delete string
  | Domains_getDnsInstructions string
  | Tenants_create string string
  | Tenants_get string
  | Tenants_list
  | Tenants_update string json
  | Tenants_delete string
  | Webhooks_create string "string list" "string option"
  | Webhooks_list
  | Webhooks_delete string
  | Certificates_get string
  | Certificates_renew string

text \<open>The method, path and data each operation hands to \<open>_request\<close>.\<close>

fun call_of :: "operation \<Rightarrow> string \<times> string \<times> json" where
  "call_of (Domains_add domain upstreamUrl tenantId) =
     (''POST'', ''/api/domain/add'',
      object [(''domain'', Some (JStr domain)), (''upstream_url'', Some (JStr upstreamUrl)),
              (''tenant_id'', map_option JStr tenantId)])"
| "call_of (Domains_get domainId) = (''GET'', ''/api/domain/'' @ domainId, JNull)"
| "call_of (Domains_list tenantId status') =
     (''GET'', ''/api/domain'' @ list_query tenantId status', JNull)"
| "call_of (Domains_verify domainId) =
     (''POST'', ''/api/domain/'' @ domainId @ ''/verify'', JNull)"
| "call_of (Domains_delete domainId) = (''DELETE'', ''/api/domain/'' @ domainId, JNull)"
| "call_of (Domains_getDnsInstructions domainId) =
     (''GET'', ''/api/domain/'' @ domainId @ ''/dns-instructions'', JNull)"
| "call_of (Tenants_create name upstreamUrl) =
     (''POST'', ''/api/tenant/create'',
      object [(''name'', Some (JStr name)), (''upstream_url'', Some (JStr upstreamUrl))])"
| "call_of (Tenants_get tenantId) = (''GET'', ''/api/tenant/'' @ tenantId, JNull)"
| "call_of Tenants_list = (''GET'', ''/api/tenant'', JNull)"
| "call_of (Tenants_update tenantId updates) =
     (''PATCH'', ''/api/tenant/'' @ tenantId, updates)"
| "call_of (Tenants_delete tenantId) = (''DELETE'', ''/api/tenant/'' @ tenantId, JNull)"
| "call_of (Webhooks_create url' events tenantId) =
     (''POST'', ''/api/webhook'',
      object [(''url'', Some (JStr url')), (''events'', Some (JArr (map JStr events))),
              (''tenant_id'', map_option JStr tenantId)])"
| "call_of Webhooks_list = (''GET'', ''/api/webhook'', JNull)"
| "call_of (Webhooks_delete webhookId) = (''DELETE'', ''/api/webhook/'' @ webhookId, JNull)"
| "call_of (Certificates_get domainId) = (''GET'', ''/api/certificates/'' @ domainId, JNull)"
| "call_of (Certificates_renew domainId) =
     (''POST'', ''/api/certificates/'' @ domainId @ ''/renew'', JNull)"

definition perform :: "client \<Rightarrow> operation \<Rightarrow> world \<Rightarrow> (exn + json) \<times> world" where
  "perform c op w = (case call_of op of (m, path, data) \<Rightarrow> DomainFlow_request c m path data w)"

text \<open>The request an operation hands to \<open>fetch\<close>.\<close>

definition issued :: "client \<Rightarrow> operation \<Rightarrow> request" where
  "issued c op = (case call_of op of (m, path, data) \<Rightarrow> build_request c m path data)"

section \<open>The specification's reading of the list query\<close>

text \<open>
  The path of \<open>list domains\<close> as the specification words it: \<open>/api/domain\<close>, then one
  \<open>key=value\<close> pair per filter that is given, joined with \<open>&\<close>, after a \<open>?\<close> if there
  is a pair.
\<close>

definition spec_list_path :: "string option \<Rightarrow> string option \<Rightarrow> string" where
  "spec_list_path tenantId status' =
     (let pairs = (case tenantId of None \<Rightarrow> [] | Some v \<Rightarrow> [''tenant_id'' @ ''='' @ v]) @
                  (case status' of None \<Rightarrow> [] | Some v \<Rightarrow> [''status'' @ ''='' @ v])
      in ''/api/domain'' @ (if pairs = [] then [] else ''?'' @ join ''&'' pairs))"

text \<open>
  The characters the serialiser of \<open>URLSearchParams\<close> writes unchanged: letters, digits
  and \<open>* - . _\<close>.
\<close>

definition plain :: "char \<Rightarrow> bool" where
  "plain c =
     (let n = (of_char c :: nat) in
      n = 42 \<or> n = 45 \<or> n = 46 \<or> n = 95 \<or>
      (48 \<le> n \<and> n \<le> 57) \<or> (65 \<le> n \<and> n \<le> 90) \<or> (97 \<le> n \<and> n \<le> 122))"

section \<open>A client and a mocked network for the examples\<close>

definition test_client :: client where
  "test_client =
     \<lparr>apiKey = ''test-api-key'', baseUrl = ''https://api.domainflow.com'', timeout = 30000\<rparr>"

text \<open>A network that answers every request in the same way, with nothing sent yet.\<close>

definition replying :: "fetch_outcome \<Rightarrow> world" where
  "replying outcome = \<lparr>remote = (\<lambda>_. outcome), sent = []\<rparr>"

section \<open>Evaluating the hash\<close>

text \<open>
  Equations that keep every intermediate word reduced to its width, so that the
  simplifier computes a digest on numerals.
\<close>

lemma norm32: "(x :: u32) = take_bit 32 x"
  by (simp add: take_bit_word_eq_self)

lemma rotr_eval: "rotr n x = take_bit 32 (drop_bit n x OR push_bit (32 - n) x)"
  unfolding rotr_def by (rule norm32)

lemma next_w_eval:
  "next_w [w0, w1, w2, w3, w4, w5, w6, w7, w8, w9, w10, w11, w12, w13, w14, w15] =
     take_bit 32 (ssig1 w14 + w9 + ssig0 w1 + w0)"
  by (simp add: next_w_def take_bit_word_eq_self)

lemma sha_round_eval:
  "sha_round k w [a, b, c, d, e, f, g, h] =
     (let t1 = take_bit 32 (h + bsig1 e + Ch e f g + k + w);
          t2 = take_bit 32 (bsig0 a + Maj a b c)
      in [take_bit 32 (t1 + t2), a, b, c, take_bit 32 (d + t1), e, f, g])"
  by (simp add: take_bit_word_eq_self)

lemmas sha_eval =
  next_w_eval sha_round_eval rotr_eval ssig0_def ssig1_def bsig0_def bsig1_def Ch_def Maj_def Let_def

lemma length_Cons_plus: "length (x # xs) = length xs + 1"
  by simp

lemma replicate_numeral_Cons: "replicate (numeral k) x = x # replicate (pred_numeral k) x"
  by (simp add: numeral_eq_Suc)

lemma word_bytes_eval:
  "word_bytes w =
     [take_bit 8 (ucast (drop_bit 24 w)), take_bit 8 (ucast (drop_bit 16 w)),
      take_bit 8 (ucast (drop_bit 8 w)), take_bit 8 (ucast w)]"
  by (simp add: word_bytes_def take_bit_word_eq_self)

lemma sha_pad_eval:
  "sha_pad m =
     m @ [128] @ replicate ((119 - length m mod 64) mod 64) 0 @
     map (\<lambda>s. take_bit 8 (ucast (drop_bit s (of_nat (8 * length m) :: 64 word))))
       [56, 48, 40, 32, 24, 16, 8, 0]"
  by (simp add: sha_pad_def Let_def take_bit_word_eq_self)

text \<open>
  HMAC-SHA256 of RFC 4231, test case 2: the four compressions, then the digest.
\<close>

lemma rfc4231_inner1:
  "compress
     [124, 83, 80, 83, 54, 54, 54, 54,
      54, 54, 54, 54, 54, 54, 54, 54,
      54, 54, 54, 54, 54, 54, 54, 54,
      54, 54, 54, 54, 54, 54, 54, 54,
      54, 54, 54, 54, 54, 54, 54, 54,
      54, 54, 54, 54, 54, 54, 54, 54,
      54, 54, 54, 54, 54, 54, 54, 54,
      54, 54, 54, 54, 54, 54, 54, 54]
     [1779033703, 3144134277, 1013904242, 2773480762,
      1359893119, 2600822924, 528734635, 1541459225] =
     [1700636666, 3426962231, 1511839179, 110292494,
      2759467987, 1278932041, 3684834018, 2026328076]"
  by (simp add: compress_def sha256_K_def sha_eval del: sha_round.simps)

lemma rfc4231_inner2:
  "compress
     [119, 104, 97, 116, 32, 100, 111, 32,
      121, 97, 32, 119, 97, 110, 116, 32,
      102, 111, 114, 32, 110, 111, 116, 104,
      105, 110, 103, 63, 128, 0, 0, 0,
      0, 0, 0, 0, 0, 0, 0, 0,
      0, 0, 0, 0, 0, 0, 0, 0,
      0, 0, 0, 0, 0, 0, 0, 0,
      0, 0, 0, 0, 0, 0, 2, 224]
     [1700636666, 3426962231, 1511839179, 110292494,
      2759467987, 1278932041, 3684834018, 2026328076] =
     [2732885382, 1026030040, 1689030016, 607298029,
      1199410252, 1865719062, 3571968279, 3324627671]"
  by (simp add: compress_def sha256_K_def sha_eval del: sha_round.simps)

lemma rfc4231_outer1:
  "compress
     [22, 57, 58, 57, 92, 92, 92, 92,
      92, 92, 92, 92, 92, 92, 92, 92,
      92, 92, 92, 92, 92, 92, 92, 92,
      92, 92, 92, 92, 92, 92, 92, 92,
      92, 92, 92, 92, 92, 92, 92, 92,
      92, 92, 92, 92, 92, 92, 92, 92,
      92, 92, 92, 92, 92, 92, 92, 92,
      92, 92, 92, 92, 92, 92, 92, 92]
     [1779033703, 3144134277, 1013904242, 2773480762,
      1359893119, 2600822924, 528734635, 1541459225] =
     [246408149, 323038828, 1785343979, 758602444,
      1369767239, 1840289256, 599761290, 1391542741]"
  by (simp add: compress_def sha256_K_def sha_eval del: sha_round.simps)

lemma rfc4231_outer2:
  "compress
     [162, 228, 133, 134, 61, 39, 249, 216,
      100, 172, 141, 128, 36, 50, 161, 237,
      71, 125, 140, 76, 111, 52, 157, 22,
      212, 231, 233, 23, 198, 41, 202, 215,
      128, 0, 0, 0, 0, 0, 0, 0,
      0, 0, 0, 0, 0, 0, 0, 0,
      0, 0, 0, 0, 0, 0, 0, 0,
      0, 0, 0, 0, 0, 0, 3, 0]
     [246408149, 323038828, 1785343979, 758602444,
      1369767239, 1840289256, 599761290, 1391542741] =
     [1541194054, 3210769742, 1778656294, 144012743,
      1509965576, 2636593539, 2649512121, 1693202499]"
  by (simp add: compress_def sha256_K_def sha_eval del: sha_round.simps)

lemma rfc4231_digest:
  "hex (hmac_sha256 (utf8 ''Jefe'') (utf8 ''what do ya want for nothing?'')) =
     ''5bdcc146bf60754e6a042426089575c75a003f089d2739839dec58b964ec3843''"
  apply (simp add: hmac_sha256_def utf8_def length_Cons_plus replicate_numeral_Cons
      del: list.size(4))
  apply (simp add: sha256_def sha_pad_eval sha256_H0_def word_bytes_eval hex_def hex_digit_def
        length_Cons_plus replicate_numeral_Cons
        rfc4231_inner1 rfc4231_inner2 rfc4231_outer1 rfc4231_outer2
      del: list.size(4))
  done

text \<open>The same key over a payload whose last character differs.\<close>

lemma changed_inner2:
  "compress
     [119, 104, 97, 116, 32, 100, 111, 32,
      121, 97, 32, 119, 97, 110, 116, 32,
      102, 111, 114, 32, 110, 111, 116, 104,
      105, 110, 103, 33, 128, 0, 0, 0,
      0, 0, 0, 0, 0, 0, 0, 0,
      0, 0, 0, 0, 0, 0, 0, 0,
      0, 0, 0, 0, 0, 0, 0, 0,
      0, 0, 0, 0, 0, 0, 2, 224]
     [1700636666, 3426962231, 1511839179, 110292494,
      2759467987, 1278932041, 3684834018, 2026328076] =
     [3509401145, 574226279, 4182018774, 1745036780,
      2026700648, 1157921528, 2531017607, 4123750298]"
  by (simp add: compress_def sha256_K_def sha_eval del: sha_round.simps)

lemma changed_outer2:
  "compress
     [209, 45, 54, 57, 34, 57, 255, 103,
      249, 68, 138, 214, 104, 3, 37, 236,
      120, 204, 255, 104, 69, 4, 122, 248,
      150, 220, 67, 135, 245, 203, 111, 154,
      128, 0, 0, 0, 0, 0, 0, 0,
      0, 0, 0, 0, 0, 0, 0, 0,
      0, 0, 0, 0, 0, 0, 0, 0,
      0, 0, 0, 0, 0, 0, 3, 0]
     [246408149, 323038828, 1785343979, 758602444,
      1369767239, 1840289256, 599761290, 1391542741] =
     [3018028370, 1083488163, 4246473644, 3712753458,
      2017717911, 778507848, 835935080, 1905054386]"
  by (simp add: compress_def sha256_K_def sha_eval del: sha_round.simps)

lemma changed_digest:
  "hex (hmac_sha256 (utf8 ''Jefe'') (utf8 ''what do ya want for nothing!'')) =
     ''b3e375524094b7a3fd1c0bacdd4c1f327843ee972e67164831d35b68718cd2b2''"
  apply (simp add: hmac_sha256_def utf8_def length_Cons_plus replicate_numeral_Cons
      del: list.size(4))
  apply (simp add: sha256_def sha_pad_eval sha256_H0_def word_bytes_eval hex_def hex_digit_def
        length_Cons_plus replicate_numeral_Cons
        rfc4231_inner1 changed_inner2 rfc4231_outer1 changed_outer2
      del: list.size(4))
  done


section \<open>The digest is lowercase hexadecimal\<close>

lemma hex_digit_in: "n < 16 \<Longrightarrow> hex_digit n \<in> set ''0123456789abcdef''"
  unfolding hex_digit_def by (rule nth_mem) simp

lemma hex_chars: "c \<in> set (hex bs) \<Longrightarrow> c \<in> set ''0123456789abcdef''"
proof -
  assume "c \<in> set (hex bs)"
  then obtain b :: byte
    where c: "c = hex_digit (unat b div 16) \<or> c = hex_digit (unat b mod 16)"
    by (auto simp: hex_def)
  have "unat b < 256"
    using unsigned_less [of b, where ?'a = nat] by simp
  then have "unat b div 16 < 16" and "unat b mod 16 < 16"
    by arith+
  with c show ?thesis
    using hex_digit_in by blast
qed

lemma hex_alpha_is_lower: "c \<in> set (hex bs) \<Longrightarrow> is_alpha c \<Longrightarrow> is_lower c"
  by (drule hex_chars) (auto simp: is_alpha_def is_lower_def)

lemma upper_differs: "is_lower c \<Longrightarrow> char_of ((of_char c :: nat) - 32) \<noteq> c"
proof
  assume low: "is_lower c" and eq: "char_of ((of_char c :: nat) - 32) = c"
  define n where "n = (of_char c :: nat)"
  from low have n: "97 \<le> n" "n \<le> 122"
    by (simp_all add: is_lower_def n_def)
  from eq have "(of_char (char_of (n - 32)) :: nat) = n"
    by (simp add: n_def)
  then have "(n - 32) mod 256 = n"
    by simp
  moreover from n have "n - 32 < 256"
    by simp
  ultimately have "n - 32 = n"
    by simp
  with n show False
    by simp
qed

lemma toUpperCase_changes: "c \<in> set s \<Longrightarrow> is_lower c \<Longrightarrow> toUpperCase s \<noteq> s"
proof
  assume c: "c \<in> set s" "is_lower c" and same: "toUpperCase s = s"
  from same have "map (\<lambda>c. if is_lower c then char_of ((of_char c :: nat) - 32) else c) s = map (\<lambda>c. c) s"
    by (simp add: toUpperCase_def)
  with c(1) have "(if is_lower c then char_of ((of_char c :: nat) - 32) else c) = c"
    by (simp only: map_eq_conv)
  with c(2) upper_differs show False
    by simp
qed

section \<open>Signature verification\<close>

text \<open>
  C1. For every payload and every secret, \<open>verifySignature\<close> with the payload, the
  lowercase hexadecimal HMAC-SHA256 of the payload under the secret as the signature, and
  the secret returns true.
\<close>

theorem verifySignature_accepts_digest:
  "verifySignature payload (hex (hmac_sha256 (utf8 secret) (utf8 payload))) secret"
  by (simp add: verifySignature_def)

text \<open>At the test vector of RFC 4231, with the digest written out.\<close>

theorem verifySignature_accepts_digest_witness:
  "verifySignature ''what do ya want for nothing?''
     ''5bdcc146bf60754e6a042426089575c75a003f089d2739839dec58b964ec3843'' ''Jefe''"
  using verifySignature_accepts_digest [of "''what do ya want for nothing?''" "''Jefe''"]
  by (simp add: rfc4231_digest)

text \<open>
  C2. A signature that differs from the lowercase hexadecimal HMAC-SHA256 of the payload
  under the secret is rejected, and \<open>verifySignature\<close> returns true only when the
  signature and the computed digest are the same string.
\<close>

theorem verifySignature_exact:
  "(signature \<noteq> hex (hmac_sha256 (utf8 secret) (utf8 payload))
      \<longrightarrow> \<not> verifySignature payload signature secret) \<and>
   (verifySignature payload signature secret
      \<longrightarrow> signature = hex (hmac_sha256 (utf8 secret) (utf8 payload)))"
  by (auto simp: verifySignature_def)

text \<open>
  At the test vector: the digest with its first character changed is rejected, and so is
  the digest of a payload that differs in its last character.
\<close>

theorem verifySignature_exact_witness:
  "''6bdcc146bf60754e6a042426089575c75a003f089d2739839dec58b964ec3843''
     \<noteq> hex (hmac_sha256 (utf8 ''Jefe'') (utf8 ''what do ya want for nothing?'')) \<and>
   \<not> verifySignature ''what do ya want for nothing?''
        ''6bdcc146bf60754e6a042426089575c75a003f089d2739839dec58b964ec3843'' ''Jefe'' \<and>
   hex (hmac_sha256 (utf8 ''Jefe'') (utf8 ''what do ya want for nothing!''))
     \<noteq> hex (hmac_sha256 (utf8 ''Jefe'') (utf8 ''what do ya want for nothing?'')) \<and>
   \<not> verifySignature ''what do ya want for nothing?''
        (hex (hmac_sha256 (utf8 ''Jefe'') (utf8 ''what do ya want for nothing!''))) ''Jefe'' \<and>
   verifySignature ''what do ya want for nothing?''
     ''5bdcc146bf60754e6a042426089575c75a003f089d2739839dec58b964ec3843'' ''Jefe''"
proof -
  let ?d = "hex (hmac_sha256 (utf8 ''Jefe'') (utf8 ''what do ya want for nothing?''))"
  let ?d' = "hex (hmac_sha256 (utf8 ''Jefe'') (utf8 ''what do ya want for nothing!''))"
  have flipped: "''6bdcc146bf60754e6a042426089575c75a003f089d2739839dec58b964ec3843'' \<noteq> ?d"
    by (simp add: rfc4231_digest)
  have other: "?d' \<noteq> ?d"
    by (simp add: rfc4231_digest changed_digest)
  have valid: "verifySignature ''what do ya want for nothing?''
      ''5bdcc146bf60754e6a042426089575c75a003f089d2739839dec58b964ec3843'' ''Jefe''"
    by (simp add: verifySignature_def rfc4231_digest)
  from flipped other valid
    verifySignature_exact [of "''6bdcc146bf60754e6a042426089575c75a003f089d2739839dec58b964ec3843''"
      "''Jefe''" "''what do ya want for nothing?''"]
    verifySignature_exact [of ?d' "''Jefe''" "''what do ya want for nothing?''"]
  show ?thesis
    by blast
qed

text \<open>
  C9. The comparison is case-sensitive: when the digest of the payload under the secret
  has an alphabetic character, its uppercase form is rejected.
\<close>

theorem verifySignature_case_sensitive:
  "\<exists>c \<in> set (hex (hmac_sha256 (utf8 secret) (utf8 payload))). is_alpha c \<Longrightarrow>
   \<not> verifySignature payload
        (toUpperCase (hex (hmac_sha256 (utf8 secret) (utf8 payload)))) secret"
proof -
  let ?d = "hex (hmac_sha256 (utf8 secret) (utf8 payload))"
  assume "\<exists>c \<in> set ?d. is_alpha c"
  then obtain c where "c \<in> set ?d" "is_lower c"
    using hex_alpha_is_lower by blast
  then have "toUpperCase ?d \<noteq> ?d"
    by (rule toUpperCase_changes)
  then show ?thesis
    by (auto simp: verifySignature_def)
qed

theorem verifySignature_case_sensitive_witness:
  "(\<exists>c \<in> set (hex (hmac_sha256 (utf8 ''Jefe'') (utf8 ''what do ya want for nothing?''))).
      is_alpha c) \<and>
   \<not> verifySignature ''what do ya want for nothing?''
        ''5BDCC146BF60754E6A042426089575C75A003F089D2739839DEC58B964EC3843'' ''Jefe''"
proof -
  let ?d = "hex (hmac_sha256 (utf8 ''Jefe'') (utf8 ''what do ya want for nothing?''))"
  have alpha: "\<exists>c \<in> set ?d. is_alpha c"
    by (simp add: rfc4231_digest is_alpha_def)
  have upper: "toUpperCase ?d = ''5BDCC146BF60754E6A042426089575C75A003F089D2739839DEC58B964EC3843''"
    by (simp add: rfc4231_digest toUpperCase_def is_lower_def char_of_def bit_0)
  from alpha upper verifySignature_case_sensitive [of "''Jefe''" "''what do ya want for nothing?''"]
  show ?thesis
    by simp
qed

section \<open>The request gateway\<close>

text \<open>
  An operation sends one request, the one \<open>issued\<close> names, and its result is what the
  \<open>try\<close> and the \<open>catch\<close> make of the network's answer to it.
\<close>

lemma perform_result:
  "fst (perform c op w) =
     (case try_block (remote w (issued c op)) of
        Inl error \<Rightarrow> Inl (catch_block error)
      | Inr json \<Rightarrow> Inr json)"
  by (simp add: perform_def issued_def DomainFlow_request_def fetch_def split: prod.splits)

lemma perform_sent: "sent (snd (perform c op w)) = sent w @ [issued c op]"
  by (simp add: perform_def issued_def DomainFlow_request_def fetch_def split: prod.splits)

lemma issued_headers:
  "headers (issued c op) = [(''x-api-key'', apiKey c), (''Content-Type'', ''application/json'')]"
  by (simp add: issued_def build_request_def split: prod.splits)







text \<open>
  C4. When the transport fails and no response is obtained, the operation fails with a
  gateway error whose \<open>statusCode\<close> and \<open>response\<close> are \<open>null\<close> and whose message is
  the message of the transport's failure.
\<close>

theorem transport_failure_rejected:
  assumes "remote w (issued c op) = Rejected m"
  shows "fst (perform c op w) = Inl (DomainFlowError m None None)"
  using assms by (simp add: perform_result try_block_def catch_block_def)

theorem transport_failure_rejected_witness:
  "remote (replying (Rejected ''fetch failed'')) (issued test_client (Certificates_renew ''dom_123''))
     = Rejected ''fetch failed'' \<and>
   fst (perform test_client (Certificates_renew ''dom_123'') (replying (Rejected ''fetch failed'')))
     = Inl (DomainFlowError ''fetch failed'' None None) \<and>
   statusCode (DomainFlowError ''fetch failed'' None None) = None \<and>
   response (DomainFlowError ''fetch failed'' None None) = None"
proof -
  have a: "remote (replying (Rejected ''fetch failed''))
             (issued test_client (Certificates_renew ''dom_123'')) = Rejected ''fetch failed''"
    by (simp add: replying_def)
  from a transport_failure_rejected [OF a] show ?thesis
    by simp
qed

text \<open>
  C5, as the code has it. When the remote answers with a status outside 200 to 299 and a
  body that does not decode, the operation fails with a gateway error, not with the decoding
  exception itself; its \<open>response\<close> is \<open>null\<close>, its \<open>statusCode\<close> is \<open>null\<close> too (the
  status of the response is not carried), and its message is that of the decoding failure.
\<close>

theorem undecodable_error_body_rejected:
  assumes "remote w (issued c op) = Resolved r"
    and "\<not> ok r"
    and "decoded r = Inl m"
  shows "fst (perform c op w) = Inl (DomainFlowError m None None)"
  using assms by (simp add: perform_result try_block_def catch_block_def)

theorem undecodable_error_body_rejected_witness:
  "remote (replying (Resolved \<lparr>status = 502, decoded = Inl ''Unexpected token < in JSON at position 0''\<rparr>))
      (issued test_client Tenants_list)
     = Resolved \<lparr>status = 502, decoded = Inl ''Unexpected token < in JSON at position 0''\<rparr> \<and>
   \<not> ok \<lparr>status = 502, decoded = Inl ''Unexpected token < in JSON at position 0''\<rparr> \<and>
   fst (perform test_client Tenants_list
         (replying (Resolved \<lparr>status = 502, decoded = Inl ''Unexpected token < in JSON at position 0''\<rparr>)))
     = Inl (DomainFlowError ''Unexpected token < in JSON at position 0'' None None)"
proof -
  let ?r = "\<lparr>status = 502, decoded = Inl ''Unexpected token < in JSON at position 0''\<rparr>"
  have a: "remote (replying (Resolved ?r)) (issued test_client Tenants_list) = Resolved ?r"
    by (simp add: replying_def)
  have b: "\<not> ok ?r"
    by (simp add: ok_def)
  have c: "decoded ?r = Inl ''Unexpected token < in JSON at position 0''"
    by simp
  from a b undecodable_error_body_rejected [OF a b c] show ?thesis
    by simp
qed

text \<open>
  The claim as the specification states it: the error of a response whose body does not
  decode would carry the status of the response. At status 502 it carries none.
\<close>

theorem undecodable_error_body_counterexample:
  "\<not> ok \<lparr>status = 502, decoded = Inl ''Unexpected token < in JSON at position 0''\<rparr> \<and>
   fst (perform test_client (Domains_get ''dom_123'')
         (replying (Resolved \<lparr>status = 502, decoded = Inl ''Unexpected token < in JSON at position 0''\<rparr>)))
     = Inl (DomainFlowError ''Unexpected token < in JSON at position 0'' None None) \<and>
   statusCode (DomainFlowError ''Unexpected token < in JSON at position 0'' None None) \<noteq> Some 502"
  by (simp add: perform_result replying_def try_block_def ok_def catch_block_def)

text \<open>
  C8. Every operation sends one request; it carries the header \<open>x-api-key\<close> with the
  client's API key, and the header \<open>Content-Type: application/json\<close> when it has a body
  (the code sets that header on every request).
\<close>

theorem requests_carry_headers:
  "sent (snd (perform c op w)) = sent w @ [issued c op] \<and>
   map_of (headers (issued c op)) ''x-api-key'' = Some (apiKey c) \<and>
   (body (issued c op) \<noteq> None \<longrightarrow>
      map_of (headers (issued c op)) ''Content-Type'' = Some ''application/json'')"
  by (simp add: perform_sent issued_headers)

theorem requests_carry_headers_witness:
  "body (issued test_client (Domains_add ''app.customer.com'' ''https://yourapp.com'' None))
     = Some (JObj [(''domain'', JStr ''app.customer.com''),
                   (''upstream_url'', JStr ''https://yourapp.com'')]) \<and>
   map_of (headers (issued test_client
       (Domains_add ''app.customer.com'' ''https://yourapp.com'' None))) ''Content-Type''
     = Some ''application/json'' \<and>
   map_of (headers (issued test_client
       (Domains_add ''app.customer.com'' ''https://yourapp.com'' None))) ''x-api-key''
     = Some ''test-api-key'' \<and>
   sent (snd (perform test_client (Domains_add ''app.customer.com'' ''https://yourapp.com'' None)
                (replying (Rejected ''fetch failed''))))
     = [issued test_client (Domains_add ''app.customer.com'' ''https://yourapp.com'' None)]"
proof -
  let ?op = "Domains_add ''app.customer.com'' ''https://yourapp.com'' None"
  have b: "body (issued test_client ?op)
      = Some (JObj [(''domain'', JStr ''app.customer.com''),
                    (''upstream_url'', JStr ''https://yourapp.com'')])"
    by (simp add: issued_def build_request_def object_def)
  have k: "apiKey test_client = ''test-api-key''"
    and w: "sent (replying (Rejected ''fetch failed'')) = []"
    by (simp_all add: test_client_def replying_def)
  from b k w requests_carry_headers [of test_client ?op "replying (Rejected ''fetch failed'')"]
  show ?thesis
    by simp
qed

section \<open>Construction\<close>

text \<open>
  C7. Constructing the client without an API key (none, or an empty one) fails at once with
  a plain \<open>Error\<close>, which is no gateway error; constructing it with a non-empty API key
  gives the client. Either way the network is left as it was: nothing is sent.
\<close>

theorem constructor_requires_key:
  "(key = None \<or> key = Some [] \<longrightarrow>
      DomainFlow_constructor key opts w = (Inl (Error ''DomainFlow API key is required''), w) \<and>
      \<not> instanceof_DomainFlowError (Error ''DomainFlow API key is required'')) \<and>
   (k \<noteq> [] \<longrightarrow>
      DomainFlow_constructor (Some k) opts w =
        (Inr \<lparr>apiKey = k,
              baseUrl = or_string (opt_baseUrl opts) ''https://api.domainflow.com'',
              timeout = or_number (opt_timeout opts) 30000\<rparr>, w))"
  by (auto simp: DomainFlow_constructor_def)

theorem constructor_requires_key_witness:
  "DomainFlow_constructor None \<lparr>opt_baseUrl = None, opt_timeout = None\<rparr>
       (replying (Rejected ''fetch failed''))
     = (Inl (Error ''DomainFlow API key is required''), replying (Rejected ''fetch failed'')) \<and>
   ''test-api-key'' \<noteq> [] \<and>
   DomainFlow_constructor (Some ''test-api-key'') \<lparr>opt_baseUrl = None, opt_timeout = None\<rparr>
       (replying (Rejected ''fetch failed''))
     = (Inr test_client, replying (Rejected ''fetch failed'')) \<and>
   sent (replying (Rejected ''fetch failed'')) = []"
  using constructor_requires_key [of None "\<lparr>opt_baseUrl = None, opt_timeout = None\<rparr>"
      "replying (Rejected ''fetch failed'')" "''test-api-key''"]
  by (simp add: test_client_def replying_def)

section \<open>The path of list domains\<close>

lemma urlencode_Cons: "urlencode (c # s) = urlencode [c] @ urlencode s"
  by (simp add: urlencode_def utf8_def)

text \<open>A plain character is written as it is.\<close>

lemma urlencode_plain_char: "plain c \<Longrightarrow> urlencode [c] = [c]"
proof -
  assume p: "plain c"
  define n where "n = (of_char c :: nat)"
  from p have n: "n < 128" "n \<noteq> 32"
    by (auto simp: plain_def n_def Let_def)
  then have u: "unat (of_nat n :: byte) = n"
    by (simp add: unat_of_nat)
  from n have "utf8 [c] = [of_nat n]"
    by (simp add: utf8_def n_def)
  moreover have "(of_nat n :: byte) \<noteq> 32"
  proof
    assume "(of_nat n :: byte) = 32"
    then have "unat (of_nat n :: byte) = unat (32 :: byte)"
      by simp
    with u n show False
      by simp
  qed
  moreover from u p have "unreserved (of_nat n)"
    by (simp add: unreserved_def plain_def n_def Let_def)
  moreover from u have "char_of (unat (of_nat n :: byte)) = c"
    by (simp add: n_def)
  ultimately show ?thesis
    by (simp add: urlencode_def urlencode_byte_def)
qed

lemma urlencode_plain: "\<forall>c \<in> set v. plain c \<Longrightarrow> urlencode v = v"
proof (induction v)
  case Nil
  show ?case
    by (simp add: urlencode_def utf8_def)
next
  case (Cons c v)
  then have "urlencode [c] = [c]" and "urlencode v = v"
    by (simp_all add: urlencode_plain_char)
  then show ?case
    using urlencode_Cons [of c v] by simp
qed

lemma urlencode_names:
  "urlencode ''tenant_id'' = ''tenant_id''" "urlencode ''status'' = ''status''"
  by (rule urlencode_plain, simp add: plain_def)+

lemma urlencode_space: "urlencode '' '' = ''+''"
  by (simp add: urlencode_def utf8_def urlencode_byte_def)

text \<open>The query string by cases: \<open>absent\<close> is a filter that is not given or is empty.\<close>

lemmas list_query_simps =
  list_query_def URLSearchParams_append_def URLSearchParams_toString_def urlencode_names Let_def

lemma list_query_none:
  "a = None \<or> a = Some [] \<Longrightarrow> b = None \<or> b = Some [] \<Longrightarrow> list_query a b = []"
  by (auto simp: list_query_simps)

lemma list_query_tenant:
  "t \<noteq> [] \<Longrightarrow> b = None \<or> b = Some [] \<Longrightarrow>
   list_query (Some t) b = ''?tenant_id='' @ urlencode t"
  by (auto simp: list_query_simps)

lemma list_query_status:
  "a = None \<or> a = Some [] \<Longrightarrow> s \<noteq> [] \<Longrightarrow>
   list_query a (Some s) = ''?status='' @ urlencode s"
  by (auto simp: list_query_simps)

lemma list_query_both:
  "t \<noteq> [] \<Longrightarrow> s \<noteq> [] \<Longrightarrow>
   list_query (Some t) (Some s) = ''?tenant_id='' @ urlencode t @ ''&status='' @ urlencode s"
  by (auto simp: list_query_simps)

text \<open>
  C10. An empty filter value counts as no filter: it adds no pair to the query string, and
  with both values empty the path is \<open>/api/domain\<close>.
\<close>

theorem list_ignores_empty_filters:
  "list_query (Some []) status' = list_query None status' \<and>
   list_query tenantId (Some []) = list_query tenantId None \<and>
   call_of (Domains_list (Some []) (Some [])) = (''GET'', ''/api/domain'', JNull)"
  by (simp add: list_query_def URLSearchParams_toString_def)

theorem list_ignores_empty_filters_witness:
  "call_of (Domains_list (Some []) (Some ''verified'')) =
     (''GET'', ''/api/domain?status=verified'', JNull) \<and>
   call_of (Domains_list (Some ''tenant_42'') (Some [])) =
     (''GET'', ''/api/domain?tenant_id=tenant_42'', JNull) \<and>
   call_of (Domains_list (Some []) (Some [])) = (''GET'', ''/api/domain'', JNull)"
proof -
  have "urlencode ''verified'' = ''verified''" and "urlencode ''tenant_42'' = ''tenant_42''"
    by (rule urlencode_plain, simp add: plain_def)+
  then have "list_query None (Some ''verified'') = ''?status=verified''"
    and "list_query (Some ''tenant_42'') None = ''?tenant_id=tenant_42''"
    by (simp_all add: list_query_tenant list_query_status)
  with list_ignores_empty_filters [of "Some ''verified''" "Some ''tenant_42''"]
  show ?thesis
    by simp
qed

text \<open>
  C6, as the code has it. The path of \<open>list domains\<close> is \<open>/api/domain\<close> followed by one
  \<open>key=value\<close> pair for each filter that is given and not empty, \<open>tenant_id\<close> before
  \<open>status\<close>, joined with \<open>&\<close> after a \<open>?\<close>; the value is written in the form
  \<open>URLSearchParams\<close> gives it, which leaves a value of plain characters unchanged.
\<close>

theorem list_domains_path:
  assumes "a = None \<or> a = Some []" and "b = None \<or> b = Some []" and "t \<noteq> []" and "s \<noteq> []"
  shows "call_of (Domains_list a b) = (''GET'', ''/api/domain'', JNull) \<and>
         call_of (Domains_list (Some t) b) =
           (''GET'', ''/api/domain?tenant_id='' @ urlencode t, JNull) \<and>
         call_of (Domains_list a (Some s)) =
           (''GET'', ''/api/domain?status='' @ urlencode s, JNull) \<and>
         call_of (Domains_list (Some t) (Some s)) =
           (''GET'', ''/api/domain?tenant_id='' @ urlencode t @ ''&status='' @ urlencode s, JNull) \<and>
         ((\<forall>c \<in> set t. plain c) \<longrightarrow> urlencode t = t) \<and>
         ((\<forall>c \<in> set s. plain c) \<longrightarrow> urlencode s = s)"
  using assms
  by (simp add: list_query_none list_query_tenant list_query_status list_query_both
        urlencode_plain)

theorem list_domains_path_witness:
  "''tenant_42'' \<noteq> [] \<and> ''verified'' \<noteq> [] \<and>
   list_all plain ''tenant_42'' \<and> list_all plain ''verified'' \<and>
   call_of (Domains_list None None) = (''GET'', ''/api/domain'', JNull) \<and>
   call_of (Domains_list None (Some ''verified'')) =
     (''GET'', ''/api/domain?status=verified'', JNull) \<and>
   call_of (Domains_list (Some ''tenant_42'') None) =
     (''GET'', ''/api/domain?tenant_id=tenant_42'', JNull) \<and>
   call_of (Domains_list (Some ''tenant_42'') (Some ''verified'')) =
     (''GET'', ''/api/domain?tenant_id=tenant_42&status=verified'', JNull)"
proof -
  have p: "\<forall>c \<in> set ''tenant_42''. plain c" "\<forall>c \<in> set ''verified''. plain c"
    by (simp_all add: plain_def)
  have n: "(None :: string option) = None \<or> None = Some []" "''tenant_42'' \<noteq> []"
      "''verified'' \<noteq> []"
    by simp_all
  from p list_domains_path [OF n(1) n(1) n(2) n(3)] show ?thesis
    by (simp add: list_all_iff)
qed

text \<open>
  The claim as the specification states it, with a pair for every filter that is given
  and the value itself in the pair, fails twice: for a value with a space the code writes
  \<open>status=a+b\<close>, and for an empty value it writes no pair.
\<close>

theorem list_domains_path_counterexample:
  "call_of (Domains_list None (Some ''a b'')) = (''GET'', ''/api/domain?status=a+b'', JNull) \<and>
   spec_list_path None (Some ''a b'') = ''/api/domain?status=a b'' \<and>
   ''/api/domain?status=a+b'' \<noteq> ''/api/domain?status=a b'' \<and>
   call_of (Domains_list (Some []) None) = (''GET'', ''/api/domain'', JNull) \<and>
   spec_list_path (Some []) None = ''/api/domain?tenant_id='' \<and>
   ''/api/domain'' \<noteq> ''/api/domain?tenant_id=''"
proof -
  have "urlencode ''a b'' = urlencode ''a'' @ urlencode '' '' @ urlencode ''b''"
    using urlencode_Cons [of "CHR ''a''" "'' b''"] urlencode_Cons [of "CHR '' ''" "''b''"]
    by simp
  moreover have "urlencode ''a'' = ''a''" and "urlencode ''b'' = ''b''"
    by (rule urlencode_plain, simp add: plain_def)+
  ultimately have "urlencode ''a b'' = ''a+b''"
    by (simp add: urlencode_space)
  moreover have "list_query None (Some ''a b'') = ''?status='' @ urlencode ''a b''"
    by (rule list_query_status) simp_all
  moreover have "list_query (Some []) None = []"
    by (rule list_query_none) simp_all
  ultimately show ?thesis
    by (simp add: spec_list_path_def)
qed

end
